theory Spec2Isabelle
  imports
    Complex_Main
    "HOL-Library.Char_ord"
    "HOL-Library.List_Lexorder"
    "HOL-Library.Product_Lexorder"
    "HOL-Library.Sublist"
    "HOL-Library.Multiset"
    "HOL-Library.Log_Nat"
begin

section \<open>The document store\<close>

text \<open>
  The service keeps its data in collections of a document store.  A collection is the
  list of its documents in the store's natural order; each document carries the
  surrogate identifier \<open>_id\<close> that the store assigns, paired here with the fields.
\<close>

type_synonym 'a collection = "(nat \<times> 'a) list"

text \<open>Failures of a request: \<open>HTTPException\<close> with its status code, the framework's
  validation failure (status 422), and the driver's exceptions, which the service does
  not catch (status 500).\<close>

datatype error =
  HTTPException nat | RequestValidationError | ValueError | KeyError | OperationFailure
  | OverflowError

fun status_code :: "error \<Rightarrow> nat" where
  "status_code (HTTPException c) = c"
| "status_code RequestValidationError = 422"
| "status_code ValueError = 500"
| "status_code KeyError = 500"
| "status_code OperationFailure = 500"
| "status_code OverflowError = 500"

text \<open>The driver encodes a command before it sends it.  An integer of the program
  goes into eight bytes at most: outside the signed 64-bit range the encoder raises
  \<open>OverflowError\<close>, and nothing reaches the store.  A command is given here with the
  list of the integers it carries.\<close>

definition int64 :: "int \<Rightarrow> bool" where
  "int64 x = (- (2 ^ 63) \<le> x \<and> x < 2 ^ 63)"

definition encodes :: "int list \<Rightarrow> bool" where
  "encodes xs = list_all int64 xs"

record UpdateResult =
  matched_count :: nat
  upserted_id :: "nat option"

text \<open>An identifier that no document of the collection has.\<close>

definition fresh_id :: "'a collection \<Rightarrow> nat" where
  "fresh_id c = Suc (fold max (map fst c) 0)"

text \<open>The store's part of \<open>update_one(filter, {"$set": ...}, upsert=True)\<close>: the first
  document that matches the filter is updated in place; when none matches, a new
  document is inserted and its identifier reported.\<close>

fun update_first :: "('a \<Rightarrow> bool) \<Rightarrow> ('a \<Rightarrow> 'a) \<Rightarrow> 'a collection \<Rightarrow> 'a collection option" where
  "update_first p f [] = None"
| "update_first p f ((i, d) # c) =
     (if p d then Some ((i, f d) # c) else map_option ((#) (i, d)) (update_first p f c))"

definition store_update ::
  "('a \<Rightarrow> bool) \<Rightarrow> ('a \<Rightarrow> 'a) \<Rightarrow> 'a \<Rightarrow> 'a collection \<Rightarrow> 'a collection \<times> UpdateResult" where
  "store_update p f new c =
     (case update_first p f c of
        Some c' \<Rightarrow> (c', \<lparr>matched_count = 1, upserted_id = None\<rparr>)
      | None \<Rightarrow> (let i = fresh_id c
                 in (c @ [(i, new)], \<lparr>matched_count = 0, upserted_id = Some i\<rparr>)))"

text \<open>\<open>update_one\<close> as the program calls it: the command is encoded, then run.\<close>

definition update_one ::
  "int list \<Rightarrow> ('a \<Rightarrow> bool) \<Rightarrow> ('a \<Rightarrow> 'a) \<Rightarrow> 'a \<Rightarrow> 'a collection
     \<Rightarrow> error + 'a collection \<times> UpdateResult" where
  "update_one ints p f new c =
     (if \<not> encodes ints then Inl OverflowError else Inr (store_update p f new c))"

section \<open>Rating upsert (app/main.py)\<close>

record RatingIn =
  user_id :: int
  book_id :: int
  rating :: int

record RatingOut =
  upserted :: bool
  matched :: nat

text \<open>\<open>verify_api_key\<close>: the header \<open>x-api-key\<close> (absent: \<open>None\<close>) against the
  configured secret.\<close>

definition verify_api_key :: "string \<Rightarrow> string option \<Rightarrow> error + unit" where
  "verify_api_key API_KEY key =
     (if key \<noteq> Some API_KEY then Inl (HTTPException 401) else Inr ())"

definition same_key :: "RatingIn \<Rightarrow> RatingIn \<Rightarrow> bool" where
  "same_key r d = (user_id d = user_id r \<and> book_id d = book_id r)"

text \<open>\<open>upsert_rating\<close>: the filter carries \<open>user_id\<close> and \<open>book_id\<close>, the update
  carries \<open>rating\<close>.\<close>

definition upsert_rating ::
  "RatingIn collection \<Rightarrow> RatingIn \<Rightarrow> error + RatingIn collection \<times> RatingOut" where
  "upsert_rating ratings r =
     (case update_one [user_id r, book_id r, rating r]
             (same_key r) (\<lambda>d. d\<lparr>rating := rating r\<rparr>)
             \<lparr>user_id = user_id r, book_id = book_id r, rating = rating r\<rparr> ratings of
        Inl e \<Rightarrow> Inl e
      | Inr (c, result) \<Rightarrow>
          Inr (c, \<lparr>upserted = (upserted_id result \<noteq> None), matched = matched_count result\<rparr>))"

text \<open>\<open>POST /ratings\<close>, on a body that parsed to its three integers: the dependency
  \<open>verify_api_key\<close> runs first, then the body is validated
  (\<open>rating: int = Field(ge=1, le=5)\<close>), then the handler writes.  An exception of the
  driver leaves the collection as it was.\<close>

definition post_ratings ::
  "string \<Rightarrow> string option \<Rightarrow> RatingIn \<Rightarrow> RatingIn collection
     \<Rightarrow> (error + RatingOut) \<times> RatingIn collection" where
  "post_ratings API_KEY key r ratings =
     (case verify_api_key API_KEY key of
        Inl e \<Rightarrow> (Inl e, ratings)
      | Inr _ \<Rightarrow>
          if \<not> (1 \<le> rating r \<and> rating r \<le> 5) then (Inl RequestValidationError, ratings)
          else (case upsert_rating ratings r of
                  Inl e \<Rightarrow> (Inl e, ratings)
                | Inr (c, out) \<Rightarrow> (Inr out, c)))"

section \<open>Rating summary (app/main.py)\<close>

text \<open>
  Numbers of the store and of Python that are floats are binary64 values; the model
  carries each as the rational it denotes.  \<open>binary64\<close> rounds a rational to the
  nearest binary64 value (ties to even) within the normal range; overflow and
  subnormal values are left out.
\<close>

definition round_half_even :: "rat \<Rightarrow> int" where
  "round_half_even x =
     (let f = \<lfloor>x\<rfloor>; d = x - of_int f
      in if d < 1 / 2 then f else if 1 / 2 < d then f + 1 else if even f then f else f + 1)"

text \<open>The exponent \<open>e\<close> with \<open>2 ^ e \<le> \<bar>x\<bar> < 2 ^ (e + 1)\<close>, for \<open>x \<noteq> 0\<close>.\<close>

definition binary_exponent :: "rat \<Rightarrow> int" where
  "binary_exponent x =
     (if 1 \<le> \<bar>x\<bar> then int (floorlog 2 (nat \<lfloor>\<bar>x\<bar>\<rfloor>)) - 1
      else - int (floorlog 2 (nat (\<lceil>1 / \<bar>x\<bar>\<rceil> - 1))))"

definition binary64 :: "rat \<Rightarrow> rat" where
  "binary64 x =
     (if x = 0 then 0
      else (let u = 2 powi (binary_exponent x - 52)
            in of_int (round_half_even (x / u)) * u))"

text \<open>The accumulator \<open>$avg\<close> over integer values: the exact sum divided by the count,
  in binary64.\<close>

definition avg :: "int list \<Rightarrow> rat" where
  "avg xs = binary64 (of_int (sum_list xs) / of_nat (length xs))"

text \<open>Python's \<open>round(x, ndigits)\<close> on a float: the exact value of \<open>x\<close> rounded to
  \<open>ndigits\<close> decimals, ties to even; the result is the decimal that the response
  prints.\<close>

definition py_round :: "rat \<Rightarrow> nat \<Rightarrow> rat" where
  "py_round x ndigits = of_int (round_half_even (x * 10 ^ ndigits)) / 10 ^ ndigits"

record RatingGroup =
  group_id :: int
  group_average :: rat
  group_count :: nat
  distribution :: "int list"

text \<open>The pipeline \<open>$match {book_id}\<close>, \<open>$group {_id: $book_id, average: $avg,
  count: $sum 1, distribution: $push}\<close>.  The command carries the requested
  \<open>book_id\<close>.  The matched documents share the grouping key, so there is one group
  when a document matches and none otherwise.\<close>

definition ratings_aggregate :: "RatingIn collection \<Rightarrow> int \<Rightarrow> error + RatingGroup list" where
  "ratings_aggregate ratings b =
     (if \<not> encodes [b] then Inl OverflowError
      else
        (let docs = filter (\<lambda>d. book_id d = b) (map snd ratings)
         in if docs = [] then Inr []
            else Inr [\<lparr>group_id = b, group_average = avg (map rating docs),
                       group_count = length docs, distribution = map rating docs\<rparr>]))"

text \<open>The histogram is a Python dict built over \<open>range(1, 6)\<close>: an association list
  in insertion order.\<close>

record RatingSummary =
  summary_book_id :: int
  average :: rat
  count :: nat
  histogram :: "(int \<times> nat) list"

definition get_rating_summary :: "RatingIn collection \<Rightarrow> int \<Rightarrow> error + RatingSummary" where
  "get_rating_summary ratings b =
     (case ratings_aggregate ratings b of
        Inl e \<Rightarrow> Inl e
      | Inr [] \<Rightarrow> Inr \<lparr>summary_book_id = b, average = 0, count = 0, histogram = []\<rparr>
      | Inr (res # _) \<Rightarrow>
          (let dist = distribution res;
               hist = map (\<lambda>i. (i, count_list dist i)) [1..5]
           in Inr \<lparr>summary_book_id = b, average = py_round (group_average res) 2,
                   count = group_count res, histogram = hist\<rparr>))"

section \<open>Cursor operations of the store\<close>

text \<open>\<open>sort(field, direction)\<close> orders the documents by the value of the field,
  ascending, or descending for direction \<open>-1\<close>.  The store does not say in which order
  documents with equal values come; its sort is therefore a parameter \<open>srt\<close> of the
  operations that sort, and \<open>sorts srt\<close> is what the store promises of it.\<close>

definition sorted_by :: "('a \<Rightarrow> 'k::linorder) \<Rightarrow> int \<Rightarrow> 'a list \<Rightarrow> bool" where
  "sorted_by k direction xs =
     (if direction = - 1 then sorted (rev (map k xs)) else sorted (map k xs))"

definition sorts :: "(('a \<Rightarrow> 'k::linorder) \<Rightarrow> int \<Rightarrow> 'a list \<Rightarrow> 'a list) \<Rightarrow> bool" where
  "sorts srt = (\<forall>k direction xs.
      mset (srt k direction xs) = mset xs \<and> sorted_by k direction (srt k direction xs))"

text \<open>One sort that keeps the promise: documents with equal values stay in their
  order when ascending, and come reversed when descending.\<close>

definition cursor_sort :: "('a \<Rightarrow> 'k::linorder) \<Rightarrow> int \<Rightarrow> 'a list \<Rightarrow> 'a list" where
  "cursor_sort k direction xs = (if direction = - 1 then rev (sort_key k xs) else sort_key k xs)"

text \<open>\<open>skip(n)\<close>: the driver raises \<open>ValueError\<close> for a negative \<open>n\<close>, and cannot
  encode an \<open>n\<close> beyond the signed 64-bit range.\<close>

definition cursor_skip :: "int \<Rightarrow> 'a list \<Rightarrow> error + 'a list" where
  "cursor_skip n xs =
     (if n < 0 then Inl ValueError
      else if \<not> encodes [n] then Inl OverflowError
      else Inr (drop (nat n) xs))"

text \<open>\<open>limit(n)\<close>: a limit of 0 is no limit; a negative limit asks for at most
  \<open>\<bar>n\<bar>\<close> documents in a single batch (the store's bound on a batch is not modelled).
  The command carries \<open>\<bar>n\<bar>\<close>.\<close>

definition cursor_limit :: "int \<Rightarrow> 'a list \<Rightarrow> error + 'a list" where
  "cursor_limit n xs =
     (if n = 0 then Inr xs
      else if \<not> encodes [\<bar>n\<bar>] then Inl OverflowError
      else Inr (take (nat \<bar>n\<bar>) xs))"

text \<open>\<open>find_one\<close>, with the integers of its filter.\<close>

definition find_one :: "int list \<Rightarrow> ('a \<Rightarrow> bool) \<Rightarrow> 'a collection \<Rightarrow> error + (nat \<times> 'a) option" where
  "find_one ints p c =
     (if \<not> encodes ints then Inl OverflowError else Inr (List.find (\<lambda>d. p (snd d)) c))"

section \<open>Books listing (app/main.py)\<close>

text \<open>The value of a field that a document may lack: absent (or null), a number, or
  a string.  The loader stores the empty string where the source has no value.  The
  store orders values of different kinds: absent before numbers, numbers before
  strings; numbers by value, strings bytewise.  \<open>field_order\<close> maps a value to a key
  of that order.\<close>

datatype field = Absent | Numeric rat | Textual string

fun field_order :: "field \<Rightarrow> nat \<times> rat \<times> string" where
  "field_order Absent = (0, 0, [])"
| "field_order (Numeric x) = (1, x, [])"
| "field_order (Textual s) = (2, 0, s)"

text \<open>A Book document; \<open>bk_book_id\<close> is its field \<open>book_id\<close>.\<close>

record Book =
  bk_book_id :: int
  goodreads_book_id :: int
  title :: string
  authors :: string
  original_publication_year :: field
  average_rating :: rat
  ratings_count :: int
  image_url :: string

record 'a PaginatedResponse =
  items :: "'a list"
  page :: int
  page_size :: int
  total :: nat

text \<open>The filter document that \<open>list_books\<close> builds: the \<open>$or\<close> of the two \<open>$regex\<close>
  clauses with their common pattern, the \<open>$gte\<close> bound on \<open>average_rating\<close>, and the
  \<open>$gte\<close> and \<open>$lte\<close> bounds on \<open>original_publication_year\<close>.  A key that the code
  does not set is \<open>None\<close>.\<close>

record query_filter =
  or_regex :: "string option"
  average_rating_gte :: "rat option"
  year_bounds :: "(int option \<times> int option) option"

text \<open>Python truth values of the optional parameters: \<open>None\<close>, the empty string and
  zero are false.\<close>

definition truthy_str :: "string option \<Rightarrow> bool" where
  "truthy_str q = (q \<noteq> None \<and> q \<noteq> Some [])"

definition truthy_num :: "'a::zero option \<Rightarrow> bool" where
  "truthy_num x = (x \<noteq> None \<and> x \<noteq> Some 0)"

definition build_filter ::
  "string option \<Rightarrow> rat option \<Rightarrow> int option \<Rightarrow> int option \<Rightarrow> query_filter" where
  "build_filter q min_avg year_from year_to =
     \<lparr>or_regex = (if truthy_str q then q else None),
      average_rating_gte = (if truthy_num min_avg then min_avg else None),
      year_bounds =
        (if truthy_num year_from \<or> truthy_num year_to
         then Some (if truthy_num year_from then year_from else None,
                    if truthy_num year_to then year_to else None)
         else None)\<rparr>"

text \<open>The integers that the filter carries: the year bounds that are set.\<close>

definition filter_ints :: "query_filter \<Rightarrow> int list" where
  "filter_ints f =
     (case year_bounds f of
        None \<Rightarrow> []
      | Some bounds \<Rightarrow>
          (case fst bounds of None \<Rightarrow> [] | Some lo \<Rightarrow> [lo])
          @ (case snd bounds of None \<Rightarrow> [] | Some hi \<Rightarrow> [hi]))"

text \<open>The store's reading of the filter.  The regular-expression engine is the
  store's: \<open>rx p\<close> is \<open>None\<close> when the store rejects the pattern \<open>p\<close>, and otherwise the
  case-insensitive search for \<open>p\<close> in a string.  A comparison with a bound holds of
  numbers only.\<close>

definition year_in_bounds :: "int option \<times> int option \<Rightarrow> field \<Rightarrow> bool" where
  "year_in_bounds bounds year =
     (case year of
        Numeric y \<Rightarrow> (case fst bounds of None \<Rightarrow> True | Some lo \<Rightarrow> of_int lo \<le> y)
                   \<and> (case snd bounds of None \<Rightarrow> True | Some hi \<Rightarrow> y \<le> of_int hi)
      | _ \<Rightarrow> False)"

definition book_matches ::
  "(string \<Rightarrow> (string \<Rightarrow> bool) option) \<Rightarrow> query_filter \<Rightarrow> (Book \<Rightarrow> bool) option" where
  "book_matches rx f =
     (case (case or_regex f of
              None \<Rightarrow> Some (\<lambda>b. True)
            | Some p \<Rightarrow> map_option (\<lambda>m b. m (title b) \<or> m (authors b)) (rx p)) of
        None \<Rightarrow> None
      | Some text_clause \<Rightarrow>
          Some (\<lambda>b. text_clause b
                   \<and> (case average_rating_gte f of None \<Rightarrow> True | Some a \<Rightarrow> a \<le> average_rating b)
                   \<and> (case year_bounds f of
                        None \<Rightarrow> True
                      | Some bounds \<Rightarrow> year_in_bounds bounds (original_publication_year b))))"

definition filter_accepts ::
  "(string \<Rightarrow> (string \<Rightarrow> bool) option) \<Rightarrow> query_filter \<Rightarrow> Book \<Rightarrow> bool option" where
  "filter_accepts rx f b = map_option (\<lambda>m. m b) (book_matches rx f)"

definition sort_field_map :: "string \<rightharpoonup> string" where
  "sort_field_map =
     [''avg'' \<mapsto> ''average_rating'', ''ratings_count'' \<mapsto> ''ratings_count'',
      ''year'' \<mapsto> ''original_publication_year'', ''title'' \<mapsto> ''title'']"

text \<open>The value of a named field of a Book document, as the sort sees it.\<close>

definition book_field :: "string \<Rightarrow> Book \<Rightarrow> field" where
  "book_field name b =
     (if name = ''average_rating'' then Numeric (average_rating b)
      else if name = ''ratings_count'' then Numeric (of_int (ratings_count b))
      else if name = ''original_publication_year'' then original_publication_year b
      else if name = ''title'' then Textual (title b)
      else Absent)"

text \<open>\<open>GET /books\<close>.  The framework validates \<open>sort\<close>, \<open>order\<close>, \<open>page\<close> and
  \<open>page_size\<close> before the handler runs; the handler counts the matching documents
  (\<open>count_documents\<close> encodes the filter and the store reads its pattern), fetches the
  page and drops \<open>_id\<close> from each document.\<close>

definition list_books ::
  "((nat \<times> Book \<Rightarrow> nat \<times> rat \<times> string) \<Rightarrow> int \<Rightarrow> Book collection \<Rightarrow> Book collection)
     \<Rightarrow> (string \<Rightarrow> (string \<Rightarrow> bool) option) \<Rightarrow> Book collection
     \<Rightarrow> string option \<Rightarrow> rat option \<Rightarrow> int option \<Rightarrow> int option
     \<Rightarrow> string \<Rightarrow> string \<Rightarrow> int \<Rightarrow> int \<Rightarrow> error + Book PaginatedResponse" where
  "list_books srt rx books q min_avg year_from year_to sort' order page' page_size' =
     (if sort' \<notin> {''avg'', ''ratings_count'', ''year'', ''title''} \<or> order \<notin> {''asc'', ''desc''}
         \<or> page' < 1 \<or> page_size' < 1 \<or> 100 < page_size'
      then Inl RequestValidationError
      else
        (let query_filter = build_filter q min_avg year_from year_to;
             mongo_order = (if order = ''desc'' then - 1 else 1)
         in if \<not> encodes (filter_ints query_filter) then Inl OverflowError
            else
              case book_matches rx query_filter of
                None \<Rightarrow> Inl OperationFailure
              | Some m \<Rightarrow>
                  (let total = length (filter (\<lambda>d. m (snd d)) books)
                   in case sort_field_map sort' of
                        None \<Rightarrow> Inl KeyError
                      | Some field \<Rightarrow>
                          (case cursor_skip ((page' - 1) * page_size')
                                  (srt (\<lambda>d. field_order (book_field field (snd d))) mongo_order
                                     (filter (\<lambda>d. m (snd d)) books)) of
                             Inl e \<Rightarrow> Inl e
                           | Inr c \<Rightarrow>
                               (case cursor_limit page_size' c of
                                  Inl e \<Rightarrow> Inl e
                                | Inr page_docs \<Rightarrow>
                                    Inr \<lparr>items = map snd page_docs, page = page',
                                         page_size = page_size', total = total\<rparr>)))))"


section \<open>Regular expressions of the store, a fragment\<close>

text \<open>
  The patterns built from ordinary characters and the wildcard \<open>.\<close> only, under the
  option \<open>i\<close>: an ordinary character matches itself in either case, \<open>.\<close> matches any
  character but a newline, and the search is not anchored.  A pattern with any other
  metacharacter is outside this fragment (\<open>None\<close>).  Characters are bytes; the case
  folding is that of the ASCII letters.
\<close>

definition lower :: "char \<Rightarrow> char" where
  "lower c = (if CHR ''A'' \<le> c \<and> c \<le> CHR ''Z'' then char_of (of_char c + 32 :: nat) else c)"

definition other_metachars :: "char list" where
  "other_metachars =
     [CHR 0x5C, CHR ''^'', CHR ''$'', CHR ''|'', CHR ''?'', CHR ''*'', CHR ''+'',
      CHR ''('', CHR '')'', CHR ''['', CHR '']'', CHR ''{'', CHR ''}'']"

definition atom_matches :: "char \<Rightarrow> char \<Rightarrow> bool" where
  "atom_matches p c = (if p = CHR ''.'' then c \<noteq> CHR 0x0A else lower p = lower c)"

fun match_here :: "string \<Rightarrow> string \<Rightarrow> bool" where
  "match_here [] s = True"
| "match_here (p # ps) [] = False"
| "match_here (p # ps) (c # s) = (atom_matches p c \<and> match_here ps s)"

fun search :: "string \<Rightarrow> string \<Rightarrow> bool" where
  "search p [] = match_here p []"
| "search p (c # s) = (match_here p (c # s) \<or> search p s)"

definition regex_i :: "string \<Rightarrow> (string \<Rightarrow> bool) option" where
  "regex_i p = (if list_ex (\<lambda>c. c \<in> set other_metachars) p then None else Some (search p))"

text \<open>``\<open>s\<close> contains \<open>q\<close> as a case-insensitive substring'', in the words of the
  specification: \<open>q\<close> taken literally.\<close>

definition contains_ci :: "string \<Rightarrow> string \<Rightarrow> bool" where
  "contains_ci q s = sublist (map lower q) (map lower s)"

section \<open>Tags (app/main.py)\<close>

record Tag =
  tag_id :: int
  tag_name :: string

text \<open>A BookTag document, with its fields \<open>goodreads_book_id\<close>, \<open>tag_id\<close> and
  \<open>count\<close>.\<close>

record BookTag =
  bt_goodreads_book_id :: int
  bt_tag_id :: int
  bt_count :: int

text \<open>A row of the response of \<open>get_book_tags\<close>: \<open>{tag_id, count, tag_name}\<close>.\<close>

record TagRow =
  row_tag_id :: int
  row_count :: int
  row_tag_name :: string

text \<open>The pipeline of \<open>get_book_tags\<close>, stage by stage: \<open>$match\<close>, \<open>$lookup\<close> into
  \<open>tags\<close>, \<open>$unwind\<close> (one row per looked-up tag, none for an empty lookup),
  \<open>$project\<close>, \<open>$sort\<close> by \<open>count\<close> descending.  The \<open>goodreads_book_id\<close> it carries
  was read from the store.\<close>

definition book_tags_aggregate ::
  "((TagRow \<Rightarrow> int) \<Rightarrow> int \<Rightarrow> TagRow list \<Rightarrow> TagRow list)
     \<Rightarrow> BookTag collection \<Rightarrow> Tag collection \<Rightarrow> int \<Rightarrow> TagRow list" where
  "book_tags_aggregate srt book_tags tags gr_id =
     (let matched = filter (\<lambda>bt. bt_goodreads_book_id bt = gr_id) (map snd book_tags);
          looked_up = map (\<lambda>bt. (bt, filter (\<lambda>t. tag_id t = bt_tag_id bt) (map snd tags))) matched;
          unwound = concat (map (\<lambda>(bt, tag_info). map (\<lambda>t. (bt, t)) tag_info) looked_up);
          projected = map (\<lambda>(bt, t). \<lparr>row_tag_id = bt_tag_id bt, row_count = bt_count bt,
                                        row_tag_name = tag_name t\<rparr>) unwound
      in srt row_count (- 1) projected)"

text \<open>\<open>get_book_tags\<close>: the filter of \<open>find_one\<close> carries the requested \<open>book_id\<close>.\<close>

definition get_book_tags ::
  "((TagRow \<Rightarrow> int) \<Rightarrow> int \<Rightarrow> TagRow list \<Rightarrow> TagRow list)
     \<Rightarrow> Book collection \<Rightarrow> BookTag collection \<Rightarrow> Tag collection \<Rightarrow> int
     \<Rightarrow> error + int \<times> TagRow list" where
  "get_book_tags srt books book_tags tags bid =
     (case find_one [bid] (\<lambda>b. bk_book_id b = bid) books of
        Inl e \<Rightarrow> Inl e
      | Inr None \<Rightarrow> Inl (HTTPException 404)
      | Inr (Some book) \<Rightarrow>
          Inr (bid, book_tags_aggregate srt book_tags tags (goodreads_book_id (snd book))))"

text \<open>\<open>GET /tags\<close>: \<open>page\<close> and \<open>page_size\<close> are plain integers, passed to the cursor
  as they come.\<close>

definition get_all_tags :: "Tag collection \<Rightarrow> int \<Rightarrow> int \<Rightarrow> error + Tag PaginatedResponse" where
  "get_all_tags tags page' page_size' =
     (let total = length tags
      in case cursor_skip ((page' - 1) * page_size') tags of
           Inl e \<Rightarrow> Inl e
         | Inr c \<Rightarrow>
             (case cursor_limit page_size' c of
                Inl e \<Rightarrow> Inl e
              | Inr page_docs \<Rightarrow>
                  Inr \<lparr>items = map snd page_docs, page = page',
                       page_size = page_size', total = total\<rparr>))"

section \<open>Ingestion (ingest/ingest.py)\<close>


















section \<open>Properties of the store operations\<close>


lemma update_first_length: "update_first p f c = Some c' \<Longrightarrow> length c' = length c"
  by (induction c arbitrary: c') (auto split: if_splits)








section \<open>Rating upsert: authorisation and idempotence\<close>

text \<open>
  Claim C7.  A rating POST whose credential header is missing or differs from the
  configured secret is rejected with status 401, and the Rating collection after the
  request is the collection before it: the handler, and with it the write, is never
  reached.
\<close>

theorem unauthorized_rating_post_rejected:
  assumes "key \<noteq> Some API_KEY"
  shows "post_ratings API_KEY key r ratings = (Inl (HTTPException 401), ratings)
       \<and> status_code (HTTPException 401) = 401"
  using assms by (simp add: post_ratings_def verify_api_key_def)

theorem unauthorized_rating_post_rejected_witness:
  "Some ''wrong'' \<noteq> Some ''secret123''
   \<and> post_ratings ''secret123'' (Some ''wrong'') \<lparr>user_id = 1, book_id = 1, rating = 5\<rparr> []
       = (Inl (HTTPException 401), [])
   \<and> None \<noteq> Some ''secret123''
   \<and> post_ratings ''secret123'' None \<lparr>user_id = 1, book_id = 1, rating = 5\<rparr>
        [(1, \<lparr>user_id = 1, book_id = 1, rating = 2\<rparr>)]
       = (Inl (HTTPException 401), [(1, \<lparr>user_id = 1, book_id = 1, rating = 2\<rparr>)])"
proof -
  have h: "Some ''wrong'' \<noteq> Some ''secret123''" by simp
  have h': "None \<noteq> Some ''secret123''" by simp
  show ?thesis
    using h h' unauthorized_rating_post_rejected[OF h] unauthorized_rating_post_rejected[OF h']
    by simp
qed




section \<open>Rounding of the average\<close>





section \<open>Rating summary\<close>

lemma upto_1_5: "[1..5] = [1, 2, 3, 4, 5 :: int]"
  by code_simp


lemma count_list_sum_1_5:
  assumes "\<forall>x\<in>set xs. 1 \<le> x \<and> x \<le> (5::int)"
  shows "count_list xs 1 + count_list xs 2 + count_list xs 3 + count_list xs 4 + count_list xs 5
         = length xs"
  using assms
proof (induction xs)
  case Nil
  then show ?case by simp
next
  case (Cons x xs)
  then have "x = 1 \<or> x = 2 \<or> x = 3 \<or> x = 4 \<or> x = 5" by auto
  with Cons show ?case by auto
qed



lemma encodes_single: "encodes [b] = int64 b"
  by (simp add: encodes_def)

lemma summary_overflow:
  assumes "\<not> int64 b"
  shows "get_rating_summary ratings b = Inl OverflowError"
  using assms by (simp add: get_rating_summary_def ratings_aggregate_def encodes_single)

lemma summary_nonempty:
  assumes "int64 b" "filter (\<lambda>d. book_id d = b) (map snd ratings) = docs" "docs \<noteq> []"
  shows "get_rating_summary ratings b =
           Inr \<lparr>summary_book_id = b, average = py_round (avg (map rating docs)) 2,
                count = length docs,
                histogram = map (\<lambda>i. (i, count_list (map rating docs) i)) [1, 2, 3, 4, 5]\<rparr>"
  using assms
  by (simp add: get_rating_summary_def ratings_aggregate_def encodes_single Let_def upto_1_5)











text \<open>
  Claim C9.  For a book with at least one rating, when every stored rating lies in
  1..5, the histogram of the summary has exactly the keys 1, 2, 3, 4, 5 and its values
  add up to the returned count.  The \<open>book_id\<close> of the request is that of a stored
  rating; the store holds integers of 64 bits, and for these the summary is returned.
  (An integer beyond 64 bits cannot be sent to the store.)
\<close>

theorem histogram_keys_and_total:
  assumes "\<exists>d\<in>set (map snd ratings). book_id d = b"
    and "\<forall>d\<in>set (map snd ratings). 1 \<le> rating d \<and> rating d \<le> 5"
  shows "(int64 b \<longrightarrow> (\<exists>s. get_rating_summary ratings b = Inr s
            \<and> map fst (histogram s) = [1, 2, 3, 4, 5]
            \<and> sum_list (map snd (histogram s)) = count s))
       \<and> (\<not> int64 b \<longrightarrow> get_rating_summary ratings b = Inl OverflowError)"
proof (intro conjI impI)
  assume b: "int64 b"
  define docs where "docs = filter (\<lambda>d. book_id d = b) (map snd ratings)"
  have ne: "docs \<noteq> []" using assms(1) by (auto simp: docs_def filter_empty_conv)
  have "\<forall>x\<in>set (map rating docs). 1 \<le> x \<and> x \<le> 5" using assms(2) by (auto simp: docs_def)
  from count_list_sum_1_5[OF this]
  show "\<exists>s. get_rating_summary ratings b = Inr s
            \<and> map fst (histogram s) = [1, 2, 3, 4, 5]
            \<and> sum_list (map snd (histogram s)) = count s"
    by (simp add: summary_nonempty[OF b docs_def[symmetric] ne])
next
  assume "\<not> int64 b"
  then show "get_rating_summary ratings b = Inl OverflowError" by (rule summary_overflow)
qed

theorem histogram_keys_and_total_witness:
  "\<exists>s. get_rating_summary
      [(1, \<lparr>user_id = 1, book_id = 1, rating = 5\<rparr>), (2, \<lparr>user_id = 2, book_id = 1, rating = 1\<rparr>),
       (3, \<lparr>user_id = 1, book_id = 2, rating = 2\<rparr>)] 1 = Inr s
     \<and> map fst (histogram s) = [1, 2, 3, 4, 5]
     \<and> sum_list (map snd (histogram s)) = count s"
proof -
  let ?c = "[(1, \<lparr>user_id = 1, book_id = 1, rating = 5\<rparr>), (2, \<lparr>user_id = 2, book_id = 1, rating = 1\<rparr>),
       (3::nat, \<lparr>user_id = 1, book_id = 2, rating = 2\<rparr>)]"
  have h1: "\<exists>d\<in>set (map snd ?c). book_id d = 1" by simp
  have h2: "\<forall>d\<in>set (map snd ?c). 1 \<le> rating d \<and> rating d \<le> 5" by simp
  have b: "int64 1" by (simp add: int64_def)
  from histogram_keys_and_total[OF h1 h2] b show ?thesis by blast
qed

section \<open>Books listing: pagination\<close>

lemma sorts_cursor_sort: "sorts cursor_sort"
  by (simp add: sorts_def cursor_sort_def sorted_by_def rev_map)













section \<open>Tags: the join and the unvalidated listing\<close>

lemma join_rows:
  "concat (map (\<lambda>(bt, tag_info). map (\<lambda>t. (bt, t)) tag_info)
       (map (\<lambda>bt. (bt, filter (\<lambda>t. Q bt t) ts)) (filter P bts)))
   = [(bt, t). bt \<leftarrow> bts, P bt, t \<leftarrow> ts, Q bt t]"
proof (induction bts)
  case Nil
  then show ?case by simp
next
  case (Cons bt bts)
  have "map (Pair bt) (filter (Q bt) ts) = concat (map (\<lambda>t. if Q bt t then [(bt, t)] else []) ts)"
    by (induction ts) auto
  with Cons show ?case by simp
qed

lemma book_tags_aggregate_mset:
  assumes "sorts srt"
  shows "mset (book_tags_aggregate srt book_tags tags g) =
   mset [\<lparr>row_tag_id = bt_tag_id bt, row_count = bt_count bt, row_tag_name = tag_name t\<rparr>.
           bt \<leftarrow> map snd book_tags, bt_goodreads_book_id bt = g,
           t \<leftarrow> map snd tags, tag_id t = bt_tag_id bt]"
proof -
  have "[\<lparr>row_tag_id = bt_tag_id bt, row_count = bt_count bt, row_tag_name = tag_name t\<rparr>.
           bt \<leftarrow> map snd book_tags, bt_goodreads_book_id bt = g,
           t \<leftarrow> map snd tags, tag_id t = bt_tag_id bt]
      = map (\<lambda>(bt, t). \<lparr>row_tag_id = bt_tag_id bt, row_count = bt_count bt, row_tag_name = tag_name t\<rparr>)
          [(bt, t). bt \<leftarrow> map snd book_tags, bt_goodreads_book_id bt = g,
             t \<leftarrow> map snd tags, tag_id t = bt_tag_id bt]"
    by (simp add: map_concat o_def if_distrib[of "map _"] cong: if_cong)
  moreover have "mset (srt k d xs) = mset xs" for k :: "TagRow \<Rightarrow> int" and d xs
    using assms by (simp add: sorts_def)
  ultimately show ?thesis
    unfolding book_tags_aggregate_def Let_def
    by (simp only: join_rows)
qed

lemma book_tags_aggregate_sorted:
  assumes "sorts srt"
  shows "sorted (rev (map row_count (book_tags_aggregate srt book_tags tags g)))"
proof -
  have "sorted_by k (- 1) (srt k (- 1) xs)" for k :: "TagRow \<Rightarrow> int" and xs
    using assms by (simp add: sorts_def)
  then show ?thesis
    unfolding book_tags_aggregate_def Let_def by (simp add: sorted_by_def)
qed

lemma book_tags_aggregate_empty:
  assumes "sorts srt"
    and "\<not> (\<exists>bt\<in>set (map snd book_tags). bt_goodreads_book_id bt = g)"
  shows "book_tags_aggregate srt book_tags tags g = []"
proof -
  have "filter (\<lambda>bt. bt_goodreads_book_id bt = g) (map snd book_tags) = []"
    using assms(2) by (auto simp: filter_empty_conv)
  moreover have "mset (srt k d []) = {#}" for k :: "TagRow \<Rightarrow> int" and d
    using assms(1) by (simp add: sorts_def)
  ultimately show ?thesis by (simp add: book_tags_aggregate_def)
qed

lemma find_one_found:
  assumes "int64 bid"
  shows "find_one [bid] p c = Inr (List.find (\<lambda>d. p (snd d)) c)"
  using assms by (simp add: find_one_def encodes_def)

text \<open>
  Claim C6 as stated fails for a \<open>book_id\<close> beyond 64 bits: no book has the
  \<open>book_id\<close> \<open>2 ^ 63\<close>, and the request ends not with status 404 but with the driver's
  \<open>OverflowError\<close> (status 500).
\<close>

theorem get_book_tags_counterexample:
  "get_book_tags cursor_sort ([] :: Book collection) [] [] 9223372036854775808 = Inl OverflowError
   \<and> status_code OverflowError = 500
   \<and> \<not> (\<exists>b\<in>set (map snd ([] :: Book collection)). bk_book_id b = 9223372036854775808)"
  by (simp add: get_book_tags_def find_one_def encodes_def int64_def)

text \<open>
  Claim C6, as amended.  For a \<open>book_id\<close> beyond 64 bits the request fails with the
  driver's error.  For every other \<open>book_id\<close>, \<open>get_book_tags\<close> fails exactly when no
  book has it, and then with status 404.  Otherwise its rows are the inner join of the
  BookTag rows that share the book's \<open>goodreads_book_id\<close> with the tags of equal
  \<open>tag_id\<close> (a BookTag row without a tag contributes no row), each row made of
  \<open>tag_id\<close>, \<open>count\<close> and \<open>tag_name\<close>, in descending order of \<open>count\<close>; a known book
  without BookTag rows gets the empty list.
\<close>

theorem get_book_tags_correct:
  assumes store: "sorts srt"
  shows "(\<not> int64 bid \<longrightarrow> get_book_tags srt books book_tags tags bid = Inl OverflowError)
   \<and> (int64 bid \<longrightarrow>
        ((\<exists>e. get_book_tags srt books book_tags tags bid = Inl e)
           \<longleftrightarrow> \<not> (\<exists>b\<in>set (map snd books). bk_book_id b = bid))
      \<and> (\<forall>e. get_book_tags srt books book_tags tags bid = Inl e \<longrightarrow>
             e = HTTPException 404 \<and> status_code e = 404)
      \<and> (\<forall>book. find_one [bid] (\<lambda>b. bk_book_id b = bid) books = Inr (Some book) \<longrightarrow>
           (\<exists>rows. get_book_tags srt books book_tags tags bid = Inr (bid, rows)
              \<and> mset rows =
                  mset [\<lparr>row_tag_id = bt_tag_id bt, row_count = bt_count bt, row_tag_name = tag_name t\<rparr>.
                         bt \<leftarrow> map snd book_tags, bt_goodreads_book_id bt = goodreads_book_id (snd book),
                         t \<leftarrow> map snd tags, tag_id t = bt_tag_id bt]
              \<and> sorted (rev (map row_count rows))
              \<and> (\<not> (\<exists>bt\<in>set (map snd book_tags).
                       bt_goodreads_book_id bt = goodreads_book_id (snd book)) \<longrightarrow> rows = []))))"
proof (intro conjI impI allI)
  assume "\<not> int64 bid"
  then show "get_book_tags srt books book_tags tags bid = Inl OverflowError"
    by (simp add: get_book_tags_def find_one_def encodes_def)
next
  assume b: "int64 bid"
  have "(List.find (\<lambda>d. bk_book_id (snd d) = bid) books = None)
          = (\<not> (\<exists>b\<in>set (map snd books). bk_book_id b = bid))"
    by (force simp: find_None_iff)
  then show "(\<exists>e. get_book_tags srt books book_tags tags bid = Inl e)
      \<longleftrightarrow> \<not> (\<exists>b\<in>set (map snd books). bk_book_id b = bid)"
    by (auto simp: get_book_tags_def find_one_found[OF b] split: option.splits)
next
  fix e assume b: "int64 bid" and "get_book_tags srt books book_tags tags bid = Inl e"
  then show "e = HTTPException 404"
    by (auto simp: get_book_tags_def find_one_found[OF b] split: option.splits)
next
  fix e assume b: "int64 bid" and "get_book_tags srt books book_tags tags bid = Inl e"
  then show "status_code e = 404"
    by (auto simp: get_book_tags_def find_one_found[OF b] split: option.splits)
next
  fix book assume b: "int64 bid"
    and f: "find_one [bid] (\<lambda>b. bk_book_id b = bid) books = Inr (Some book)"
  let ?rows = "book_tags_aggregate srt book_tags tags (goodreads_book_id (snd book))"
  have "get_book_tags srt books book_tags tags bid = Inr (bid, ?rows)"
    by (simp add: get_book_tags_def f)
  moreover note book_tags_aggregate_mset[OF store, of book_tags tags "goodreads_book_id (snd book)"]
    book_tags_aggregate_sorted[OF store, of book_tags tags "goodreads_book_id (snd book)"]
  moreover have "\<not> (\<exists>bt\<in>set (map snd book_tags).
                    bt_goodreads_book_id bt = goodreads_book_id (snd book)) \<longrightarrow> ?rows = []"
    using book_tags_aggregate_empty[OF store] by blast
  ultimately show "\<exists>rows. get_book_tags srt books book_tags tags bid = Inr (bid, rows)
           \<and> mset rows =
               mset [\<lparr>row_tag_id = bt_tag_id bt, row_count = bt_count bt, row_tag_name = tag_name t\<rparr>.
                      bt \<leftarrow> map snd book_tags, bt_goodreads_book_id bt = goodreads_book_id (snd book),
                      t \<leftarrow> map snd tags, tag_id t = bt_tag_id bt]
           \<and> sorted (rev (map row_count rows))
           \<and> (\<not> (\<exists>bt\<in>set (map snd book_tags).
                    bt_goodreads_book_id bt = goodreads_book_id (snd book)) \<longrightarrow> rows = [])"
    by blast
qed

theorem get_book_tags_correct_witness:
  "sorts cursor_sort \<and> int64 9 \<and> int64 1
   \<and> get_book_tags cursor_sort
     [(1, \<lparr>bk_book_id = 1, goodreads_book_id = 11, title = ''Emma'', authors = ''Jane Austen'',
           original_publication_year = Numeric 1815, average_rating = 4, ratings_count = 10,
           image_url = ''''\<rparr>)]
     [(1, \<lparr>bt_goodreads_book_id = 11, bt_tag_id = 5, bt_count = 10\<rparr>),
      (2, \<lparr>bt_goodreads_book_id = 11, bt_tag_id = 6, bt_count = 30\<rparr>),
      (3, \<lparr>bt_goodreads_book_id = 11, bt_tag_id = 7, bt_count = 20\<rparr>),
      (4, \<lparr>bt_goodreads_book_id = 12, bt_tag_id = 5, bt_count = 99\<rparr>)]
     [(1, \<lparr>tag_id = 5, tag_name = ''fantasy''\<rparr>), (2, \<lparr>tag_id = 6, tag_name = ''classic''\<rparr>)] 9
     = Inl (HTTPException 404)
   \<and> (\<exists>rows. get_book_tags cursor_sort
     [(1, \<lparr>bk_book_id = 1, goodreads_book_id = 11, title = ''Emma'', authors = ''Jane Austen'',
           original_publication_year = Numeric 1815, average_rating = 4, ratings_count = 10,
           image_url = ''''\<rparr>)]
     [(1, \<lparr>bt_goodreads_book_id = 11, bt_tag_id = 5, bt_count = 10\<rparr>),
      (2, \<lparr>bt_goodreads_book_id = 11, bt_tag_id = 6, bt_count = 30\<rparr>),
      (3, \<lparr>bt_goodreads_book_id = 11, bt_tag_id = 7, bt_count = 20\<rparr>),
      (4, \<lparr>bt_goodreads_book_id = 12, bt_tag_id = 5, bt_count = 99\<rparr>)]
     [(1, \<lparr>tag_id = 5, tag_name = ''fantasy''\<rparr>), (2, \<lparr>tag_id = 6, tag_name = ''classic''\<rparr>)] 1
       = Inr (1, rows)
     \<and> mset rows = {#\<lparr>row_tag_id = 5, row_count = 10, row_tag_name = ''fantasy''\<rparr>,
                      \<lparr>row_tag_id = 6, row_count = 30, row_tag_name = ''classic''\<rparr>#}
     \<and> sorted (rev (map row_count rows)))"
proof -
  let ?book = "\<lparr>bk_book_id = 1, goodreads_book_id = 11, title = ''Emma'', authors = ''Jane Austen'',
           original_publication_year = Numeric 1815, average_rating = 4, ratings_count = 10,
           image_url = ''''\<rparr>"
  let ?books = "[(1::nat, ?book)]"
  let ?bts = "[(1::nat, \<lparr>bt_goodreads_book_id = 11, bt_tag_id = 5, bt_count = 10\<rparr>),
      (2, \<lparr>bt_goodreads_book_id = 11, bt_tag_id = 6, bt_count = 30\<rparr>),
      (3, \<lparr>bt_goodreads_book_id = 11, bt_tag_id = 7, bt_count = 20\<rparr>),
      (4, \<lparr>bt_goodreads_book_id = 12, bt_tag_id = 5, bt_count = 99\<rparr>)]"
  let ?tags = "[(1::nat, \<lparr>tag_id = 5, tag_name = ''fantasy''\<rparr>), (2, \<lparr>tag_id = 6, tag_name = ''classic''\<rparr>)]"
  have i9: "int64 9" and i1: "int64 1" by (simp_all add: int64_def)
  have absent: "\<not> (\<exists>b\<in>set (map snd ?books). bk_book_id b = 9)" by simp
  have found: "find_one [1] (\<lambda>b. bk_book_id b = 1) ?books = Inr (Some (1, ?book))"
    by (simp add: find_one_def encodes_def int64_def)
  from get_book_tags_correct[OF sorts_cursor_sort, of 9 ?books ?bts ?tags] absent i9
  have "\<exists>e. get_book_tags cursor_sort ?books ?bts ?tags 9 = Inl e" by blast
  moreover from get_book_tags_correct[OF sorts_cursor_sort, of 9 ?books ?bts ?tags] i9
  have "\<forall>e. get_book_tags cursor_sort ?books ?bts ?tags 9 = Inl e \<longrightarrow> e = HTTPException 404"
    by blast
  ultimately have nf: "get_book_tags cursor_sort ?books ?bts ?tags 9 = Inl (HTTPException 404)"
    by blast
  from get_book_tags_correct[OF sorts_cursor_sort, of 1 ?books ?bts ?tags] found i1
  have "\<exists>rows. get_book_tags cursor_sort ?books ?bts ?tags 1 = Inr (1, rows)
           \<and> mset rows =
               mset [\<lparr>row_tag_id = bt_tag_id bt, row_count = bt_count bt, row_tag_name = tag_name t\<rparr>.
                      bt \<leftarrow> map snd ?bts, bt_goodreads_book_id bt = goodreads_book_id (snd (1::nat, ?book)),
                      t \<leftarrow> map snd ?tags, tag_id t = bt_tag_id bt]
           \<and> sorted (rev (map row_count rows))"
    by blast
  then have "\<exists>rows. get_book_tags cursor_sort ?books ?bts ?tags 1 = Inr (1, rows)
     \<and> mset rows = {#\<lparr>row_tag_id = 5, row_count = 10, row_tag_name = ''fantasy''\<rparr>,
                      \<lparr>row_tag_id = 6, row_count = 30, row_tag_name = ''classic''\<rparr>#}
     \<and> sorted (rev (map row_count rows))"
    by simp
  with nf i9 i1 sorts_cursor_sort show ?thesis by blast
qed

text \<open>
  Claim C10.  \<open>get_all_tags\<close> validates neither \<open>page\<close> nor \<open>page_size\<close>: it never
  answers with a validation error, whereas the books listing rejects \<open>page_size = 0\<close>.
  With \<open>page_size = 0\<close> it returns the whole tags collection in one response, for any
  page, and every response carries the size of the whole collection as \<open>total\<close>.
\<close>

theorem get_all_tags_unvalidated:
  "get_all_tags tags p 0 = Inr \<lparr>items = map snd tags, page = p, page_size = 0, total = length tags\<rparr>
   \<and> get_all_tags tags p ps \<noteq> Inl RequestValidationError
   \<and> (\<forall>r. get_all_tags tags p ps = Inr r \<longrightarrow> total r = length tags)
   \<and> list_books srt rx books q min_avg yf yt s ord p 0 = Inl RequestValidationError"
  by (auto simp: get_all_tags_def cursor_skip_def cursor_limit_def list_books_def Let_def
      encodes_def int64_def split: if_splits sum.splits)

theorem get_all_tags_unvalidated_witness:
  "get_all_tags [(1, \<lparr>tag_id = 5, tag_name = ''fantasy''\<rparr>), (2, \<lparr>tag_id = 6, tag_name = ''classic''\<rparr>)] 1 1
     = Inr \<lparr>items = [\<lparr>tag_id = 5, tag_name = ''fantasy''\<rparr>], page = 1, page_size = 1, total = 2\<rparr>
   \<and> get_all_tags [(1, \<lparr>tag_id = 5, tag_name = ''fantasy''\<rparr>), (2, \<lparr>tag_id = 6, tag_name = ''classic''\<rparr>)] 7 0
     = Inr \<lparr>items = [\<lparr>tag_id = 5, tag_name = ''fantasy''\<rparr>, \<lparr>tag_id = 6, tag_name = ''classic''\<rparr>],
           page = 7, page_size = 0, total = 2\<rparr>
   \<and> total \<lparr>items = [\<lparr>tag_id = 5, tag_name = ''fantasy''\<rparr>], page = 1, page_size = 1, total = 2\<rparr>
     = length [(1::nat, \<lparr>tag_id = 5, tag_name = ''fantasy''\<rparr>), (2, \<lparr>tag_id = 6, tag_name = ''classic''\<rparr>)]"
proof -
  let ?tags = "[(1::nat, \<lparr>tag_id = 5, tag_name = ''fantasy''\<rparr>), (2, \<lparr>tag_id = 6, tag_name = ''classic''\<rparr>)]"
  let ?r = "\<lparr>items = [\<lparr>tag_id = 5, tag_name = ''fantasy''\<rparr>], page = 1, page_size = 1, total = 2\<rparr>"
  have ev: "get_all_tags ?tags 1 1 = Inr ?r"
    by (simp add: get_all_tags_def cursor_skip_def cursor_limit_def encodes_def int64_def)
  from get_all_tags_unvalidated[of ?tags 1 1] ev have "total ?r = length ?tags" by blast
  moreover from get_all_tags_unvalidated[of ?tags 7]
  have "get_all_tags ?tags 7 0 = Inr \<lparr>items = map snd ?tags, page = 7, page_size = 0, total = length ?tags\<rparr>"
    by blast
  ultimately show ?thesis using ev by simp
qed

section \<open>The rating bound of the filter\<close>

text \<open>
  Claim C5.  The claim asks that a present \<open>min_avg\<close>, zero included, restricts the
  result to the books with \<open>average_rating \<ge> min_avg\<close>.  The handler tests the
  parameter for truth, so \<open>min_avg = 0\<close> builds the same filter as an absent
  \<open>min_avg\<close>, and a book whose average rating is below 0 passes it.
\<close>

theorem min_avg_zero_ignored:
  "build_filter q (Some 0) yf yt = build_filter q None yf yt
   \<and> filter_accepts regex_i (build_filter None (Some 0) None None)
       \<lparr>bk_book_id = 1, goodreads_book_id = 11, title = ''Emma'', authors = ''Jane Austen'',
        original_publication_year = Numeric 1815, average_rating = - 1, ratings_count = 10,
        image_url = ''''\<rparr> = Some True
   \<and> \<not> (0 \<le> average_rating
       \<lparr>bk_book_id = 1, goodreads_book_id = 11, title = ''Emma'', authors = ''Jane Austen'',
        original_publication_year = Numeric 1815, average_rating = - 1, ratings_count = 10,
        image_url = ''''\<rparr>)"
  by (simp add: build_filter_def truthy_num_def truthy_str_def filter_accepts_def book_matches_def)

section \<open>The text filter\<close>

lemma match_here_prefix:
  "CHR ''.'' \<notin> set p \<Longrightarrow> match_here p s = prefix (map lower p) (map lower s)"
  by (induction p s rule: match_here.induct) (auto simp: atom_matches_def)

lemma search_sublist:
  assumes "CHR ''.'' \<notin> set p"
  shows "search p s = sublist (map lower p) (map lower s)"
proof (induction s)
  case Nil
  show ?case by (cases p) simp_all
next
  case (Cons c s)
  then show ?case
    by (simp add: match_here_prefix[OF assms] sublist_Cons_right)
qed

lemma regex_i_literal:
  assumes "\<forall>c\<in>set q. c \<noteq> CHR ''.'' \<and> c \<notin> set other_metachars"
  shows "regex_i q = Some (contains_ci q)"
proof -
  have "\<not> list_ex (\<lambda>c. c \<in> set other_metachars) q" using assms by (auto simp: list_ex_iff)
  moreover have "CHR ''.'' \<notin> set q" using assms by auto
  then have "search q = contains_ci q"
    by (intro ext) (simp add: search_sublist contains_ci_def)
  ultimately show ?thesis by (simp add: regex_i_def)
qed

text \<open>
  Claim C4 as stated fails: \<open>q\<close> is not taken literally.  The pattern \<open>.\<close> matches
  the title \<open>Emma\<close>, which does not contain a full stop, and neither does the authors
  field.
\<close>

theorem q_regex_counterexample:
  "filter_accepts regex_i (build_filter (Some ''.'') None None None)
     \<lparr>bk_book_id = 1, goodreads_book_id = 11, title = ''Emma'', authors = ''Jane Austen'',
      original_publication_year = Numeric 1815, average_rating = 4, ratings_count = 10,
      image_url = ''''\<rparr> = Some True
   \<and> \<not> (contains_ci ''.'' (title
     \<lparr>bk_book_id = 1, goodreads_book_id = 11, title = ''Emma'', authors = ''Jane Austen'',
      original_publication_year = Numeric 1815, average_rating = 4, ratings_count = 10,
      image_url = ''''\<rparr>)
     \<or> contains_ci ''.'' (authors
     \<lparr>bk_book_id = 1, goodreads_book_id = 11, title = ''Emma'', authors = ''Jane Austen'',
      original_publication_year = Numeric 1815, average_rating = 4, ratings_count = 10,
      image_url = ''''\<rparr>))"
  by code_simp

text \<open>
  Claim C4, as amended.  The parameter \<open>q\<close> is handed to the store as a regular
  expression.  When \<open>q\<close> is non-empty and has no metacharacter, the filter accepts a book
  exactly when its title or its authors contain \<open>q\<close> as a case-insensitive substring
  (and the other constraints hold); an empty \<open>q\<close> builds the filter of an absent
  \<open>q\<close>, which constrains nothing.
\<close>

theorem q_literal_substring:
  assumes "q \<noteq> []" and "\<forall>c\<in>set q. c \<noteq> CHR ''.'' \<and> c \<notin> set other_metachars"
  shows "filter_accepts regex_i (build_filter (Some q) min_avg yf yt) b =
           map_option (\<lambda>rest. (contains_ci q (title b) \<or> contains_ci q (authors b)) \<and> rest)
             (filter_accepts regex_i (build_filter None min_avg yf yt) b)
       \<and> build_filter (Some []) min_avg yf yt = build_filter None min_avg yf yt
       \<and> filter_accepts rx (build_filter None None None None) b = Some True"
  using assms(1)
  by (simp add: filter_accepts_def book_matches_def build_filter_def truthy_str_def truthy_num_def
      regex_i_literal[OF assms(2)])

theorem q_literal_substring_witness:
  "filter_accepts regex_i (build_filter (Some ''emma'') None None None)
     \<lparr>bk_book_id = 1, goodreads_book_id = 11, title = ''Emma'', authors = ''Jane Austen'',
      original_publication_year = Numeric 1815, average_rating = 4, ratings_count = 10,
      image_url = ''''\<rparr> = Some True
   \<and> contains_ci ''emma'' ''Emma''"
proof -
  let ?b = "\<lparr>bk_book_id = 1, goodreads_book_id = 11, title = ''Emma'', authors = ''Jane Austen'',
      original_publication_year = Numeric 1815, average_rating = 4, ratings_count = 10,
      image_url = ''''\<rparr>"
  have h1: "''emma'' \<noteq> []" by simp
  have h2: "\<forall>c\<in>set ''emma''. c \<noteq> CHR ''.'' \<and> c \<notin> set other_metachars"
    by (simp add: other_metachars_def)
  have c: "contains_ci ''emma'' ''Emma''" by code_simp
  have r: "filter_accepts regex_i (build_filter None None None None) ?b = Some True"
    by (simp add: filter_accepts_def book_matches_def build_filter_def truthy_str_def truthy_num_def)
  from q_literal_substring[OF h1 h2, of None None None ?b] c r show ?thesis by simp
qed

section \<open>Ingestion: round trip and idempotence\<close>
































end
